theory Spec2Isabelle
  imports Complex_Main "HOL-Library.Word"
begin

section \<open>qcam capture session: data model\<close>

text \<open>
  The development embeds \<^verbatim>\<open>MainWindow::startCapture\<close>, \<^verbatim>\<open>MainWindow::stopCapture\<close>,
  \<^verbatim>\<open>MainWindow::requestComplete\<close> and \<^verbatim>\<open>MainWindow::display\<close> of
  \<^verbatim>\<open>src/qcam/main_window.cpp\<close>. The window is a record of the members these four
  functions touch; every function takes the window and returns the updated one together
  with the calls it made on its collaborators (camera, allocator, viewfinder, the
  operating system), in order. What a collaborator answers is not decided by this file:
  it is read from a \<open>device\<close> record, one field per call.
\<close>

text \<open>A \<^verbatim>\<open>void *\<close>: the null pointer, \<^verbatim>\<open>MAP_FAILED\<close>, or an address.\<close>

datatype pointer = NullPtr | MapFailed | Addr nat

text \<open>\<^verbatim>\<open>FrameBuffer::Plane\<close>: descriptor and length.\<close>

record plane =
  plane_fd :: int
  plane_length :: nat

text \<open>
  \<^verbatim>\<open>FrameMetadata\<close>: \<open>mplanes\<close> is the vector \<^verbatim>\<open>metadata.planes\<close>, each entry the
  \<^verbatim>\<open>bytesused\<close> of one plane. The source reads it through its own accessor, apart
  from \<^verbatim>\<open>buffer->planes()\<close>, so the two vectors are two lists here.
\<close>

record frame_metadata =
  sequence :: nat
  timestamp :: "64 word"
  mplanes :: "nat list"

record frame_buffer =
  planes :: "plane list"
  metadata :: frame_metadata

datatype request_status = RequestPending | RequestComplete | RequestCancelled

text \<open>
  A completed \<^verbatim>\<open>Request\<close> as the handler sees it: its status and
  \<^verbatim>\<open>request->buffers()\<close>, a \<^verbatim>\<open>std::map<Stream *, FrameBuffer *>\<close> listed in key order.
\<close>

record request =
  status :: request_status
  buffers :: "(nat \<times> frame_buffer) list"

record stream_configuration =
  pixelFormat :: nat
  width :: nat
  height :: nat

datatype config_status = Valid | Adjusted | Invalid

text \<open>\<^verbatim>\<open>allocator_\<close> is a raw pointer: never set, pointing to a live allocator, or deleted.\<close>

datatype allocator_ptr = AllocNull | AllocLive | AllocDeleted

text \<open>\<^verbatim>\<open>mappedBuffers_\<close>: \<^verbatim>\<open>std::map<int, std::pair<void *, unsigned int>>\<close>.\<close>

type_synonym mapped_table = "int \<rightharpoonup> (pointer \<times> nat)"

record main_window =
  config :: "stream_configuration option"
  allocator :: allocator_ptr
  isCapturing :: bool
  mappedBuffers :: mapped_table
  titleTimerActive :: bool
  previousFrames :: "32 word"
  framesCaptured :: "32 word"
  lastBufferTime :: "64 word"

text \<open>The lines written to \<^verbatim>\<open>std::cout\<close> and \<^verbatim>\<open>std::cerr\<close>.\<close>

datatype message =
    FailedValidConfiguration
  | StreamSizeAdjusted
  | FailedConfigureCamera
  | FailedSetViewfinderFormat
  | FailedAllocateBuffers
  | CantCreateRequest
  | CantSetBuffer
  | FailedStartCapture
  | CantQueueRequest
  | FailedStopCapture

text \<open>
  The calls made on the collaborators. A request is named by a number; \<open>EvFrameLog\<close> is
  the per-frame line of the completion handler (sequence, bytes used, timestamp, fps).
\<close>

datatype event =
    EvMessage message
  | EvConfigure stream_configuration
  | EvSetFormat stream_configuration
  | EvAllocate nat
  | EvCreateRequest nat
  | EvAddBuffer nat nat frame_buffer
  | EvMmap int nat pointer
  | EvMunmap pointer nat
  | EvDeleteRequest nat
  | EvCameraStart
  | EvCameraStop
  | EvQueueRequest nat
  | EvDeleteAllocator
  | EvFrameLog nat nat "64 word" real
  | EvDisplay pointer nat

text \<open>
  What the collaborators answer during one call of \<^verbatim>\<open>startCapture\<close> or
  \<^verbatim>\<open>stopCapture\<close>. \<open>createRequest dev i\<close> tells whether the \<open>i\<close>-th call of
  \<^verbatim>\<open>camera_->createRequest()\<close> returns a request (it is then request number \<open>i\<close>) or
  \<^verbatim>\<open>nullptr\<close>; \<open>addBuffer\<close> and \<open>queueRequest\<close> answer per request, \<open>mmap\<close> per
  call, descriptor and length.
\<close>

record device =
  generateConfiguration :: stream_configuration
  size_options :: "(nat option \<times> nat option) list"
  validate :: "stream_configuration \<Rightarrow> config_status \<times> stream_configuration"
  configure :: "stream_configuration \<Rightarrow> int"
  setFormat :: "stream_configuration \<Rightarrow> int"
  stream :: nat
  allocate :: int
  alloc_buffers :: "frame_buffer list"
  createRequest :: "nat \<Rightarrow> bool"
  addBuffer :: "nat \<Rightarrow> int"
  mmap :: "nat \<Rightarrow> int \<Rightarrow> nat \<Rightarrow> pointer"
  start :: int
  queueRequest :: "nat \<Rightarrow> int"
  stop :: int

text \<open>
  Undefined behaviour of the C++ (reading the first element of an empty vector or map)
  is a result of its own, never a value.
\<close>

datatype fault = OutOfBounds

definition EINVAL :: int where
  "EINVAL = 22"

definition ENOMEM :: int where
  "ENOMEM = 12"

section \<open>The Mapped-Buffer Table\<close>

text \<open>
  The loop \<^verbatim>\<open>for (auto &iter : mappedBuffers_) munmap(...)\<close>: one \<^verbatim>\<open>munmap\<close> per
  entry, in key order.
\<close>

definition munmap_all :: "mapped_table \<Rightarrow> event list" where
  "munmap_all tbl =
     map (\<lambda>k. EvMunmap (fst (the (tbl k))) (snd (the (tbl k))))
       (sorted_list_of_set (dom tbl))"

text \<open>
  \<^verbatim>\<open>mappedBuffers_[k]\<close> as an rvalue: \<^verbatim>\<open>std::map::operator[]\<close> returns the entry of
  \<open>k\<close>, and inserts a value-initialised entry \<^verbatim>\<open>(nullptr, 0)\<close> first when there is none.
\<close>

definition table_index :: "mapped_table \<Rightarrow> int \<Rightarrow> (pointer \<times> nat) \<times> mapped_table" where
  "table_index tbl k =
     (case tbl k of
        Some region \<Rightarrow> (region, tbl)
      | None \<Rightarrow> ((NullPtr, 0), tbl(k \<mapsto> (NullPtr, 0))))"

section \<open>startCapture\<close>

text \<open>The \<^verbatim>\<open>width\<close> and \<^verbatim>\<open>height\<close> keys of one \<^verbatim>\<open>OptSize\<close> value.\<close>

definition apply_size_option ::
  "stream_configuration \<Rightarrow> nat option \<times> nat option \<Rightarrow> stream_configuration" where
  "apply_size_option cfg opt =
     (let cfg1 = (case fst opt of Some wd \<Rightarrow> cfg\<lparr>width := wd\<rparr> | None \<Rightarrow> cfg)
      in case snd opt of Some ht \<Rightarrow> cfg1\<lparr>height := ht\<rparr> | None \<Rightarrow> cfg1)"

text \<open>
  The loop over \<^verbatim>\<open>allocator_->buffers(stream)\<close> (lines 254 to 277). \<open>i\<close> counts the
  iterations, \<open>requests\<close> is the local vector, \<open>tbl\<close> is \<^verbatim>\<open>mappedBuffers_\<close>. The result
  is \<open>Some ret\<close> when the loop leaves by \<^verbatim>\<open>goto error\<close> and \<open>None\<close> when it runs to its
  end. The value of \<^verbatim>\<open>mmap\<close> is stored as it comes. \<^verbatim>\<open>planes().front()\<close> on a buffer
  without planes is undefined.
\<close>

fun create_requests ::
  "device \<Rightarrow> nat \<Rightarrow> frame_buffer list \<Rightarrow> nat list \<Rightarrow> mapped_table \<Rightarrow>
   fault + (int option \<times> nat list \<times> mapped_table \<times> event list)" where
  "create_requests dev i [] requests tbl = Inr (None, requests, tbl, [])"
| "create_requests dev i (buffer # rest) requests tbl =
     (if \<not> createRequest dev i then
        Inr (Some (- ENOMEM), requests, tbl, [EvMessage CantCreateRequest])
      else if addBuffer dev i < 0 then
        Inr (Some (addBuffer dev i), requests, tbl,
             [EvCreateRequest i, EvAddBuffer i (stream dev) buffer, EvMessage CantSetBuffer])
      else
        (case planes buffer of
           [] \<Rightarrow> Inl OutOfBounds
         | pl # _ \<Rightarrow>
             (let memory = mmap dev i (plane_fd pl) (plane_length pl) in
              case create_requests dev (Suc i) rest (requests @ [i])
                     (tbl(plane_fd pl \<mapsto> (memory, plane_length pl))) of
                Inl f \<Rightarrow> Inl f
              | Inr (exit, requests', tbl', evs) \<Rightarrow>
                  Inr (exit, requests', tbl',
                       [EvCreateRequest i, EvAddBuffer i (stream dev) buffer,
                        EvMmap (plane_fd pl) (plane_length pl) memory] @ evs))))"

text \<open>
  The loop \<^verbatim>\<open>for (Request *request : requests) camera_->queueRequest(request)\<close>
  (lines 291 to 297), with the same convention for its result.
\<close>

fun queue_requests :: "device \<Rightarrow> nat list \<Rightarrow> int option \<times> event list" where
  "queue_requests dev [] = (None, [])"
| "queue_requests dev (r # rs) =
     (if queueRequest dev r < 0 then
        (Some (queueRequest dev r), [EvQueueRequest r, EvMessage CantQueueRequest])
      else
        (case queue_requests dev rs of
           (exit, evs) \<Rightarrow> (exit, EvQueueRequest r # evs)))"

text \<open>
  The label \<^verbatim>\<open>error:\<close> (lines 302 to 313): every request of the local vector is
  deleted, every entry of the table unmapped, the table cleared, \<open>ret\<close> returned.
\<close>

definition unwind ::
  "int \<Rightarrow> nat list \<Rightarrow> main_window \<Rightarrow> event list \<Rightarrow> int \<times> main_window \<times> event list" where
  "unwind ret requests w evs =
     (ret, w\<lparr>mappedBuffers := Map.empty\<rparr>,
      evs @ map EvDeleteRequest requests @ munmap_all (mappedBuffers w))"

text \<open>Lines 254 to 314: from the request loop to the end of the function.\<close>

definition start_session ::
  "device \<Rightarrow> main_window \<Rightarrow> fault + (int \<times> main_window \<times> event list)" where
  "start_session dev w =
     (case create_requests dev 0 (alloc_buffers dev) [] (mappedBuffers w) of
        Inl f \<Rightarrow> Inl f
      | Inr (Some ret, requests, tbl, evs) \<Rightarrow>
          Inr (unwind ret requests (w\<lparr>mappedBuffers := tbl\<rparr>) evs)
      | Inr (None, requests, tbl, evs) \<Rightarrow>
          (let w1 = w\<lparr>mappedBuffers := tbl, titleTimerActive := True, previousFrames := 0,
                       framesCaptured := 0, lastBufferTime := 0\<rparr>
           in if start dev \<noteq> 0 then
                Inr (unwind (start dev) requests w1
                       (evs @ [EvCameraStart, EvMessage FailedStartCapture]))
              else
                (case queue_requests dev requests of
                   (Some ret, evq) \<Rightarrow> Inr (unwind ret requests w1 (evs @ [EvCameraStart] @ evq))
                 | (None, evq) \<Rightarrow>
                     Inr (0, w1\<lparr>isCapturing := True\<rparr>, evs @ [EvCameraStart] @ evq))))"

text \<open>
  \<^verbatim>\<open>MainWindow::startCapture\<close>. The four early returns (lines 221 to 252) leave
  through \<^verbatim>\<open>return\<close>, not through the label.
\<close>

definition startCapture ::
  "device \<Rightarrow> main_window \<Rightarrow> fault + (int \<times> main_window \<times> event list)" where
  "startCapture dev w =
     (case validate dev (foldl apply_size_option (generateConfiguration dev) (size_options dev)) of
        (validation, cfg) \<Rightarrow>
          (let w1 = w\<lparr>config := Some cfg\<rparr>;
               adjusted = (if validation = Adjusted then [EvMessage StreamSizeAdjusted] else [])
           in if validation = Invalid then
                Inr (- EINVAL, w1, [EvMessage FailedValidConfiguration])
              else if configure dev cfg < 0 then
                Inr (configure dev cfg, w1,
                     adjusted @ [EvConfigure cfg, EvMessage FailedConfigureCamera])
              else if setFormat dev cfg < 0 then
                Inr (setFormat dev cfg, w1,
                     adjusted @ [EvConfigure cfg, EvSetFormat cfg,
                                 EvMessage FailedSetViewfinderFormat])
              else if allocate dev < 0 then
                Inr (allocate dev, w1\<lparr>allocator := AllocLive\<rparr>,
                     adjusted @ [EvConfigure cfg, EvSetFormat cfg, EvAllocate (stream dev),
                                 EvMessage FailedAllocateBuffers])
              else
                (case start_session dev (w1\<lparr>allocator := AllocLive\<rparr>) of
                   Inl f \<Rightarrow> Inl f
                 | Inr (ret, w2, evs) \<Rightarrow>
                     Inr (ret, w2,
                          adjusted @ [EvConfigure cfg, EvSetFormat cfg, EvAllocate (stream dev)]
                            @ evs))))"

section \<open>stopCapture\<close>

definition stopCapture :: "device \<Rightarrow> main_window \<Rightarrow> main_window \<times> event list" where
  "stopCapture dev w =
     (if \<not> isCapturing w then (w, [])
      else
        (w\<lparr>mappedBuffers := Map.empty, allocator := AllocDeleted, isCapturing := False,
           config := None, titleTimerActive := False\<rparr>,
         [EvCameraStop] @ (if stop dev \<noteq> 0 then [EvMessage FailedStopCapture] else [])
           @ munmap_all (mappedBuffers w) @ [EvDeleteAllocator]))"

section \<open>The completion handler\<close>

text \<open>
  Lines 354 and 355. The subtraction is the one of \<^verbatim>\<open>uint64_t\<close>; the \<^verbatim>\<open>double\<close>
  it is converted to, and the quotient, are taken as real numbers (the rounding of
  \<^verbatim>\<open>double\<close> is left out).
\<close>

definition frame_rate :: "64 word \<Rightarrow> 64 word \<Rightarrow> real" where
  "frame_rate ts lastTime =
     (let fps = real (unat (ts - lastTime))
      in if lastTime \<noteq> 0 \<and> fps \<noteq> 0 then 1000000000 / fps else 0)"

text \<open>
  \<^verbatim>\<open>MainWindow::display\<close>. The table is read with \<^verbatim>\<open>operator[]\<close>. The size check
  makes \<^verbatim>\<open>planes().front()\<close> safe; \<^verbatim>\<open>metadata().planes[0]\<close> is read from the other
  vector.
\<close>

definition display :: "main_window \<Rightarrow> frame_buffer \<Rightarrow> fault + (int \<times> main_window \<times> event list)" where
  "display w buffer =
     (if length (planes buffer) \<noteq> 1 then Inr (- EINVAL, w, [])
      else
        (case table_index (mappedBuffers w) (plane_fd (hd (planes buffer))) of
           (region, tbl) \<Rightarrow>
             (case mplanes (metadata buffer) of
                [] \<Rightarrow> Inl OutOfBounds
              | used # _ \<Rightarrow>
                  Inr (0, w\<lparr>mappedBuffers := tbl\<rparr>, [EvDisplay (fst region) used]))))"

text \<open>
  Lines 366 to 379: \<open>new_request\<close> is what \<^verbatim>\<open>camera_->createRequest()\<close> returns
  (\<open>None\<close> for \<^verbatim>\<open>nullptr\<close>). The results of \<^verbatim>\<open>addBuffer\<close> and \<^verbatim>\<open>queueRequest\<close> are
  not looked at.
\<close>

definition resubmit :: "nat option \<Rightarrow> (nat \<times> frame_buffer) list \<Rightarrow> event list" where
  "resubmit new_request bufs =
     (case new_request of
        None \<Rightarrow> [EvMessage CantCreateRequest]
      | Some r \<Rightarrow>
          [EvCreateRequest r] @ map (\<lambda>(s, b). EvAddBuffer r s b) bufs @ [EvQueueRequest r])"

text \<open>
  \<^verbatim>\<open>MainWindow::requestComplete\<close>. \<^verbatim>\<open>buffers.begin()->second\<close> on a request without
  buffers and \<^verbatim>\<open>metadata.planes[0]\<close> on an empty vector are undefined. The value
  \<^verbatim>\<open>display\<close> returns is dropped.
\<close>

definition requestComplete ::
  "nat option \<Rightarrow> main_window \<Rightarrow> request \<Rightarrow> fault + (main_window \<times> event list)" where
  "requestComplete new_request w req =
     (if status req = RequestCancelled then Inr (w, [])
      else
        (case buffers req of
           [] \<Rightarrow> Inl OutOfBounds
         | (_, buffer) # _ \<Rightarrow>
             (let md = metadata buffer;
                  fps = frame_rate (timestamp md) (lastBufferTime w);
                  w1 = w\<lparr>framesCaptured := framesCaptured w + 1,
                          lastBufferTime := timestamp md\<rparr>
              in case mplanes md of
                   [] \<Rightarrow> Inl OutOfBounds
                 | used # _ \<Rightarrow>
                     (case display w1 buffer of
                        Inl f \<Rightarrow> Inl f
                      | Inr (_, w2, evd) \<Rightarrow>
                          Inr (w2,
                               [EvFrameLog (sequence md) used (timestamp md) fps] @ evd
                                 @ resubmit new_request (buffers req))))))"

section \<open>Reading a trace\<close>

text \<open>The requests handed to \<^verbatim>\<open>camera_->queueRequest\<close>, created and deleted, in order.\<close>

fun queued :: "event list \<Rightarrow> nat list" where
  "queued [] = []"
| "queued (EvQueueRequest r # evs) = r # queued evs"
| "queued (_ # evs) = queued evs"

fun created :: "event list \<Rightarrow> nat list" where
  "created [] = []"
| "created (EvCreateRequest r # evs) = r # created evs"
| "created (_ # evs) = created evs"

fun deleted :: "event list \<Rightarrow> nat list" where
  "deleted [] = []"
| "deleted (EvDeleteRequest r # evs) = r # deleted evs"
| "deleted (_ # evs) = deleted evs"


text \<open>The fps figures of the per-frame lines.\<close>

fun logged_fps :: "event list \<Rightarrow> real list" where
  "logged_fps [] = []"
| "logged_fps (EvFrameLog _ _ _ fps # evs) = fps # logged_fps evs"
| "logged_fps (_ # evs) = logged_fps evs"

text \<open>The descriptor of \<^verbatim>\<open>buffer->planes().front()\<close>, for a buffer that has planes.\<close>

definition first_fd :: "frame_buffer \<Rightarrow> int" where
  "first_fd b = plane_fd (hd (planes b))"

text \<open>The buffer \<^verbatim>\<open>buffers.begin()->second\<close> of a request that has one, and its timestamp.\<close>

definition completed_buffer :: "request \<Rightarrow> frame_buffer" where
  "completed_buffer req = snd (hd (buffers req))"

definition completed_timestamp :: "request \<Rightarrow> 64 word" where
  "completed_timestamp req = timestamp (metadata (completed_buffer req))"

section \<open>Concrete sessions\<close>

definition vga :: stream_configuration where
  "vga = \<lparr>pixelFormat = 1, width = 640, height = 480\<rparr>"

text \<open>A single-plane buffer on descriptor \<open>d\<close>, 4096 bytes long, \<open>used\<close> bytes filled at time \<open>ts\<close>.\<close>

definition single_plane :: "int \<Rightarrow> nat \<Rightarrow> 64 word \<Rightarrow> frame_buffer" where
  "single_plane d used ts =
     \<lparr>planes = [\<lparr>plane_fd = d, plane_length = 4096\<rparr>],
      metadata = \<lparr>sequence = 0, timestamp = ts, mplanes = [used]\<rparr>\<rparr>"

definition two_plane :: frame_buffer where
  "two_plane =
     \<lparr>planes = [\<lparr>plane_fd = 3, plane_length = 4096\<rparr>, \<lparr>plane_fd = 4, plane_length = 2048\<rparr>],
      metadata = \<lparr>sequence = 0, timestamp = 5000, mplanes = [4096, 2048]\<rparr>\<rparr>"

text \<open>The same two planes with an empty \<^verbatim>\<open>metadata.planes\<close>.\<close>

definition no_metadata :: frame_buffer where
  "no_metadata = two_plane\<lparr>metadata := \<lparr>sequence = 0, timestamp = 5000, mplanes = []\<rparr>\<rparr>"

definition completed :: "frame_buffer \<Rightarrow> request" where
  "completed b = \<lparr>status = RequestComplete, buffers = [(0, b)]\<rparr>"

definition cancelled :: "frame_buffer \<Rightarrow> request" where
  "cancelled b = \<lparr>status = RequestCancelled, buffers = [(0, b)]\<rparr>"

text \<open>
  A camera on which every call succeeds, with three buffers, the first and the third on
  the same descriptor.
\<close>

definition good_device :: device where
  "good_device =
     \<lparr>generateConfiguration = vga, size_options = [],
      validate = (\<lambda>c. (Valid, c)), configure = (\<lambda>c. 0), setFormat = (\<lambda>c. 0),
      stream = 0, allocate = 0,
      alloc_buffers = [single_plane 3 0 0, single_plane 4 0 0, single_plane 3 0 0],
      createRequest = (\<lambda>i. True), addBuffer = (\<lambda>i. 0),
      mmap = (\<lambda>i d n. Addr (65536 * (i + 1))), start = 0, queueRequest = (\<lambda>r. 0),
      stop = 0\<rparr>"

text \<open>The same camera refusing \<^verbatim>\<open>configure\<close> with \<^verbatim>\<open>-EACCES\<close>.\<close>

definition busy_device :: device where
  "busy_device = good_device\<lparr>configure := (\<lambda>c. - 13)\<rparr>"

text \<open>The same camera with \<^verbatim>\<open>addBuffer\<close> failing on the second request.\<close>

definition bind_fail_device :: device where
  "bind_fail_device = good_device\<lparr>addBuffer := (\<lambda>i. if i = 1 then - 22 else 0)\<rparr>"

text \<open>The same camera with \<^verbatim>\<open>createRequest\<close> failing on its second call.\<close>

definition create_fail_device :: device where
  "create_fail_device = good_device\<lparr>createRequest := (\<lambda>i. i \<noteq> 1)\<rparr>"

text \<open>The same camera on a system where every \<^verbatim>\<open>mmap\<close> returns \<^verbatim>\<open>MAP_FAILED\<close>.\<close>

definition mmap_fail_device :: device where
  "mmap_fail_device = good_device\<lparr>mmap := (\<lambda>i d n. MapFailed)\<rparr>"

text \<open>The window as the constructor leaves it, and as a successful start leaves it.\<close>

definition fresh_window :: main_window where
  "fresh_window =
     \<lparr>config = None, allocator = AllocNull, isCapturing = False, mappedBuffers = Map.empty,
      titleTimerActive = False, previousFrames = 0, framesCaptured = 0, lastBufferTime = 0\<rparr>"

definition capturing_window :: main_window where
  "capturing_window =
     \<lparr>config = Some vga, allocator = AllocLive, isCapturing = True,
      mappedBuffers = [3 \<mapsto> (Addr 196608, 4096), 4 \<mapsto> (Addr 131072, 4096)],
      titleTimerActive = True, previousFrames = 0, framesCaptured = 0, lastBufferTime = 0\<rparr>"

section \<open>Facts about the request loop and the queue loop\<close>

lemma queued_append: "queued (xs @ ys) = queued xs @ queued ys"
  by (induction xs rule: queued.induct) simp_all

lemma queued_map: "queued (map EvQueueRequest rs) = rs"
  by (induction rs) simp_all

lemma create_requests_exit:
  "create_requests dev i bufs rs tbl = Inr (Some ret, rs', tbl', evs) \<Longrightarrow> ret \<noteq> 0"
  by (induction bufs arbitrary: i rs tbl evs)
     (auto simp: ENOMEM_def Let_def split: if_splits list.splits sum.splits)

lemma create_requests_queued:
  "create_requests dev i bufs rs tbl = Inr (x, rs', tbl', evs) \<Longrightarrow> queued evs = []"
  by (induction bufs arbitrary: i rs tbl evs)
     (auto simp: Let_def split: if_splits list.splits sum.splits)

lemma create_requests_done:
  "create_requests dev i bufs rs tbl = Inr (None, rs', tbl', evs) \<Longrightarrow>
     length rs' = length rs + length bufs \<and>
     dom tbl' = dom tbl \<union> first_fd ` set bufs \<and>
     (\<forall>b \<in> set bufs. planes b \<noteq> [])"
proof (induction bufs arbitrary: i rs tbl evs)
  case Nil
  then show ?case by simp
next
  case (Cons b bufs)
  from Cons.prems obtain pl pls where pl: "planes b = pl # pls"
    by (auto split: if_splits list.splits)
  from Cons.prems pl obtain evs0 where
    rec: "create_requests dev (Suc i) bufs (rs @ [i])
            (tbl(plane_fd pl \<mapsto> (mmap dev i (plane_fd pl) (plane_length pl), plane_length pl)))
          = Inr (None, rs', tbl', evs0)"
    by (auto simp: Let_def split: if_splits sum.splits)
  from Cons.IH [OF rec] pl show ?case
    by (auto simp: first_fd_def)
qed

lemma queue_requests_exit:
  "queue_requests dev rs = (Some ret, evs) \<Longrightarrow> ret < 0"
  by (induction rs arbitrary: evs) (auto split: if_splits prod.splits)

lemma queue_requests_done:
  "queue_requests dev rs = (None, evs) \<Longrightarrow> evs = map EvQueueRequest rs"
  by (induction rs arbitrary: evs) (auto split: if_splits prod.splits)

lemma start_session_failed:
  "start_session dev w = Inr (ret, w', evs) \<Longrightarrow> ret \<noteq> 0 \<Longrightarrow>
     mappedBuffers w' = Map.empty \<and> isCapturing w' = isCapturing w"
  by (auto simp: start_session_def unwind_def Let_def
           split: sum.splits prod.splits option.splits if_splits)

lemma start_session_ok:
  assumes "start_session dev w = Inr (0, w', evs)"
  shows "length (queued evs) = length (alloc_buffers dev) \<and>
         dom (mappedBuffers w') = dom (mappedBuffers w) \<union> first_fd ` set (alloc_buffers dev) \<and>
         (\<forall>b \<in> set (alloc_buffers dev). planes b \<noteq> []) \<and> isCapturing w' \<and>
         lastBufferTime w' = 0"
proof -
  from assms obtain rs tbl ev1 where
    cr: "create_requests dev 0 (alloc_buffers dev) [] (mappedBuffers w) = Inr (None, rs, tbl, ev1)"
    by (auto simp: start_session_def unwind_def Let_def
        dest: create_requests_exit queue_requests_exit
        split: sum.splits prod.splits option.splits if_splits)
  from assms cr obtain evq where
    q: "queue_requests dev rs = (None, evq)" and st: "start dev = 0"
    by (auto simp: start_session_def unwind_def Let_def
        dest: queue_requests_exit
        split: sum.splits prod.splits option.splits if_splits)
  from assms cr q st have w': "mappedBuffers w' = tbl" "isCapturing w'" "lastBufferTime w' = 0"
    and evs: "evs = ev1 @ [EvCameraStart] @ evq"
    by (auto simp: start_session_def Let_def)
  from create_requests_done [OF cr] create_requests_queued [OF cr] queue_requests_done [OF q]
  show ?thesis
    by (simp add: w' evs queued_append queued_map)
qed

lemma startCapture_resets_time:
  assumes "startCapture dev w = Inr (0, w', evs)"
  shows "lastBufferTime w' = 0"
proof -
  from assms obtain w1 ev1 where "start_session dev w1 = Inr (0, w', ev1)"
    by (auto simp: startCapture_def Let_def EINVAL_def split: prod.splits if_splits sum.splits)
  from start_session_ok [OF this] show ?thesis by simp
qed

section \<open>Requests created and deleted by a failed start\<close>

text \<open>
  Whatever the camera answers, a start that fails deletes every request it has pushed on
  its vector. The requests it created are the ones it deleted, in order, with at most one
  more: the request whose \<^verbatim>\<open>addBuffer\<close> failed.
\<close>

lemma created_append: "created (xs @ ys) = created xs @ created ys"
  by (induction xs rule: created.induct) simp_all

lemma deleted_append: "deleted (xs @ ys) = deleted xs @ deleted ys"
  by (induction xs rule: deleted.induct) simp_all

lemma deleted_map: "deleted (map EvDeleteRequest rs) = rs"
  by (induction rs) simp_all

lemma created_map_delete: "created (map EvDeleteRequest rs) = []"
  by (induction rs) simp_all

lemma munmap_all_trace: "created (munmap_all tbl) = [] \<and> deleted (munmap_all tbl) = []"
proof -
  have "created (map (\<lambda>k. EvMunmap (f k) (g k)) ks) = [] \<and>
        deleted (map (\<lambda>k. EvMunmap (f k) (g k)) ks) = []" for f g and ks :: "int list"
    by (induction ks) simp_all
  then show ?thesis by (simp add: munmap_all_def)
qed

lemma queue_requests_trace:
  "queue_requests dev rs = (x, evs) \<Longrightarrow> created evs = [] \<and> deleted evs = []"
  by (induction rs arbitrary: x evs) (auto split: if_splits prod.splits)

lemma create_requests_trace:
  "create_requests dev i bufs rs tbl = Inr (x, rs', tbl', evs) \<Longrightarrow>
     deleted evs = [] \<and>
     (\<exists>new. rs' = rs @ new \<and>
        (created evs = new \<or>
         (x \<noteq> None \<and> created evs = new @ [i + length new] \<and>
          addBuffer dev (i + length new) < 0)))"
proof (induction bufs arbitrary: i rs tbl evs)
  case Nil
  then show ?case by simp
next
  case (Cons b bufs)
  show ?case
  proof (cases "createRequest dev i \<and> \<not> addBuffer dev i < 0")
    case False
    with Cons.prems show ?thesis
      by (auto split: if_splits)
  next
    case True
    with Cons.prems obtain pl pls where pl: "planes b = pl # pls"
      by (auto split: if_splits list.splits)
    from Cons.prems True pl obtain evs0 where
      rec: "create_requests dev (Suc i) bufs (rs @ [i])
              (tbl(plane_fd pl \<mapsto> (mmap dev i (plane_fd pl) (plane_length pl), plane_length pl)))
            = Inr (x, rs', tbl', evs0)"
      and evs: "evs = [EvCreateRequest i, EvAddBuffer i (stream dev) b,
                       EvMmap (plane_fd pl) (plane_length pl)
                         (mmap dev i (plane_fd pl) (plane_length pl))] @ evs0"
      by (auto simp: Let_def split: if_splits sum.splits)
    from Cons.IH [OF rec] obtain new where
      d: "deleted evs0 = []" and new: "rs' = (rs @ [i]) @ new" and
      c: "created evs0 = new \<or>
          (x \<noteq> None \<and> created evs0 = new @ [Suc i + length new] \<and>
           addBuffer dev (Suc i + length new) < 0)"
      by blast
    from new have "rs' = rs @ (i # new)" by simp
    moreover from c have "created evs = i # new \<or>
          (x \<noteq> None \<and> created evs = (i # new) @ [i + length (i # new)] \<and>
           addBuffer dev (i + length (i # new)) < 0)"
      by (auto simp: evs)
    moreover from d have "deleted evs = []" by (simp add: evs)
    ultimately show ?thesis by blast
  qed
qed

lemma start_session_discards:
  assumes "start_session dev w = Inr (ret, w', evs)" and "ret \<noteq> 0"
  shows "created evs = deleted evs \<or>
         (\<exists>k. created evs = deleted evs @ [k] \<and> addBuffer dev k < 0)"
proof -
  from assms obtain x rs tbl ev1 where
    cr: "create_requests dev 0 (alloc_buffers dev) [] (mappedBuffers w) = Inr (x, rs, tbl, ev1)"
    by (auto simp: start_session_def split: sum.splits)
  from create_requests_trace [OF cr] have d1: "deleted ev1 = []"
    and c1: "created ev1 = rs \<or> (x \<noteq> None \<and> created ev1 = rs @ [length rs] \<and>
                addBuffer dev (length rs) < 0)"
    by auto
  show ?thesis
  proof (cases x)
    case (Some r)
    with assms cr have "evs = ev1 @ map EvDeleteRequest rs @ munmap_all tbl"
      by (auto simp: start_session_def unwind_def)
    with c1 d1 show ?thesis
      by (auto simp: created_append deleted_append deleted_map created_map_delete
          munmap_all_trace)
  next
    case None
    with c1 have c: "created ev1 = rs" by simp
    obtain y evq where q: "queue_requests dev rs = (y, evq)" by force
    from queue_requests_trace [OF q] have tq: "created evq = []" "deleted evq = []" by simp_all
    from assms cr None q have
      "evs = ev1 @ [EvCameraStart, EvMessage FailedStartCapture] @ map EvDeleteRequest rs
               @ munmap_all tbl \<or>
       evs = ev1 @ [EvCameraStart] @ evq @ map EvDeleteRequest rs @ munmap_all tbl"
      by (auto simp: start_session_def unwind_def Let_def split: if_splits option.splits)
    with c d1 tq show ?thesis
      by (auto simp: created_append deleted_append deleted_map created_map_delete
          munmap_all_trace)
  qed
qed

lemma failed_start_discards:
  assumes "startCapture dev w = Inr (ret, w', evs)" and "ret \<noteq> 0"
  shows "created evs = deleted evs \<or>
         (\<exists>k. created evs = deleted evs @ [k] \<and> addBuffer dev k < 0)"
  using assms
  by (auto simp: startCapture_def Let_def split: prod.splits if_splits sum.splits
      dest!: start_session_discards)

section \<open>Facts about the completion handler\<close>

lemma logged_fps_append: "logged_fps (xs @ ys) = logged_fps xs @ logged_fps ys"
  by (induction xs rule: logged_fps.induct) simp_all

lemma logged_fps_resubmit: "logged_fps (resubmit nr bufs) = []"
proof -
  have "logged_fps (map (\<lambda>(s, b). EvAddBuffer r s b) bufs) = []" for r
    by (induction bufs) auto
  then show ?thesis
    by (simp add: resubmit_def logged_fps_append split: option.splits)
qed

lemma display_cases:
  "display w b = Inr (ret, w', evd) \<Longrightarrow>
     lastBufferTime w' = lastBufferTime w \<and> logged_fps evd = [] \<and>
     (length (planes b) \<noteq> 1 \<longrightarrow> w' = w \<and> evd = [] \<and> ret = - EINVAL)"
  by (auto simp: display_def table_index_def split: if_splits option.splits list.splits)

lemma requestComplete_rate:
  assumes "requestComplete nr w req = Inr (w', evs)" and "status req \<noteq> RequestCancelled"
  shows "lastBufferTime w' = completed_timestamp req \<and>
         logged_fps evs = [frame_rate (completed_timestamp req) (lastBufferTime w)]"
  using assms
  by (auto simp: requestComplete_def Let_def completed_timestamp_def completed_buffer_def
        logged_fps_append logged_fps_resubmit
      dest!: display_cases split: list.splits sum.splits prod.splits)

lemma frame_rate_positive:
  assumes "0 < t1" and "t1 < t2"
  shows "frame_rate t2 t1 = 1000000000 / real (unat t2 - unat t1)"
proof -
  from assms have le: "t1 \<le> t2" by simp
  have u: "unat (t2 - t1) = unat t2 - unat t1"
    using le by (simp add: unat_sub)
  have "unat t1 < unat t2" using assms by (simp add: word_less_nat_alt)
  then have "unat t2 - unat t1 \<noteq> 0" by simp
  with assms u show ?thesis
    by (auto simp: frame_rate_def Let_def)
qed

section \<open>Starting\<close>

text \<open>
  Claim C1, amended. \<^verbatim>\<open>startCapture\<close> never writes \<^verbatim>\<open>isCapturing_\<close> on a failure,
  and its four early returns do not touch the table. So the property holds for a call made
  on a window that is not capturing and whose table is empty: when such a call returns an
  error, at any failure point (invalid configuration, \<^verbatim>\<open>configure\<close>, \<^verbatim>\<open>setFormat\<close>,
  allocation, request creation, buffer binding, camera start, queueing), the table is
  empty and the capturing flag is false afterwards.
\<close>

theorem failed_start_leaves_nothing:
  assumes "startCapture dev w = Inr (ret, w', evs)" and "ret \<noteq> 0"
    and "\<not> isCapturing w" and "mappedBuffers w = Map.empty"
  shows "mappedBuffers w' = Map.empty \<and> \<not> isCapturing w'"
  using assms
  by (auto simp: startCapture_def Let_def dest!: start_session_failed
           split: prod.splits if_splits sum.splits)

theorem failed_start_leaves_nothing_witness:
  "startCapture create_fail_device fresh_window =
     Inr (- 12, fresh_window\<lparr>config := Some vga, allocator := AllocLive\<rparr>,
          [EvConfigure vga, EvSetFormat vga, EvAllocate 0, EvCreateRequest 0,
           EvAddBuffer 0 0 (single_plane 3 0 0), EvMmap 3 4096 (Addr 65536),
           EvMessage CantCreateRequest, EvDeleteRequest 0, EvMunmap (Addr 65536) 4096]) \<and>
   (- 12 :: int) \<noteq> 0 \<and> \<not> isCapturing fresh_window \<and>
   mappedBuffers fresh_window = Map.empty \<and>
   mappedBuffers (fresh_window\<lparr>config := Some vga, allocator := AllocLive\<rparr>) = Map.empty \<and>
   \<not> isCapturing (fresh_window\<lparr>config := Some vga, allocator := AllocLive\<rparr>)"
  using failed_start_leaves_nothing [of create_fail_device fresh_window "- 12"
      "fresh_window\<lparr>config := Some vga, allocator := AllocLive\<rparr>"]
  by (simp add: startCapture_def start_session_def unwind_def munmap_all_def
      create_fail_device_def good_device_def fresh_window_def Let_def single_plane_def ENOMEM_def)

text \<open>
  The claim as first stated, for every call, fails: the toolbar's start action calls
  \<^verbatim>\<open>startCapture\<close> whatever the state. On a capturing window, with a camera that
  refuses \<^verbatim>\<open>configure\<close>, the call returns the error and leaves the window as it was,
  capturing, with its table populated.
\<close>

theorem failed_start_while_capturing_counterexample:
  "startCapture busy_device capturing_window =
     Inr (- 13, capturing_window, [EvConfigure vga, EvMessage FailedConfigureCamera]) \<and>
   (- 13 :: int) \<noteq> 0 \<and> isCapturing capturing_window \<and>
   mappedBuffers capturing_window 3 = Some (Addr 196608, 4096)"
  by (simp add: startCapture_def busy_device_def good_device_def capturing_window_def Let_def)

text \<open>
  Claim C2 asks that every request created during a failed start is discarded, the one
  whose \<^verbatim>\<open>addBuffer\<close> failed included. The code leaves the loop before
  \<^verbatim>\<open>requests.push_back(request)\<close>, so that request never reaches the vector the label
  \<^verbatim>\<open>error:\<close> deletes. With \<^verbatim>\<open>addBuffer\<close> failing on the second request, requests 0
  and 1 are created and only request 0 is deleted.
\<close>

theorem bind_failure_leaks_request:
  "startCapture bind_fail_device fresh_window =
     Inr (- 22, fresh_window\<lparr>config := Some vga, allocator := AllocLive\<rparr>,
          [EvConfigure vga, EvSetFormat vga, EvAllocate 0, EvCreateRequest 0,
           EvAddBuffer 0 0 (single_plane 3 0 0), EvMmap 3 4096 (Addr 65536),
           EvCreateRequest 1, EvAddBuffer 1 0 (single_plane 4 0 0), EvMessage CantSetBuffer,
           EvDeleteRequest 0, EvMunmap (Addr 65536) 4096]) \<and>
   created [EvConfigure vga, EvSetFormat vga, EvAllocate 0, EvCreateRequest 0,
           EvAddBuffer 0 0 (single_plane 3 0 0), EvMmap 3 4096 (Addr 65536),
           EvCreateRequest 1, EvAddBuffer 1 0 (single_plane 4 0 0), EvMessage CantSetBuffer,
           EvDeleteRequest 0, EvMunmap (Addr 65536) 4096] = [0, 1] \<and>
   deleted [EvConfigure vga, EvSetFormat vga, EvAllocate 0, EvCreateRequest 0,
           EvAddBuffer 0 0 (single_plane 3 0 0), EvMmap 3 4096 (Addr 65536),
           EvCreateRequest 1, EvAddBuffer 1 0 (single_plane 4 0 0), EvMessage CantSetBuffer,
           EvDeleteRequest 0, EvMunmap (Addr 65536) 4096] = [0]"
  by (simp add: startCapture_def start_session_def unwind_def munmap_all_def
      bind_fail_device_def good_device_def fresh_window_def Let_def single_plane_def)

text \<open>
  Claim C3 asks that a failing \<^verbatim>\<open>mmap\<close> is detected and makes the start fail and
  unwind. The code never looks at what \<^verbatim>\<open>mmap\<close> returns: with every \<^verbatim>\<open>mmap\<close>
  returning \<^verbatim>\<open>MAP_FAILED\<close>, \<^verbatim>\<open>startCapture\<close> returns 0, the window is capturing and the
  table holds \<^verbatim>\<open>MAP_FAILED\<close> for both descriptors.
\<close>

theorem mmap_failure_recorded:
  "startCapture mmap_fail_device fresh_window =
     Inr (0, capturing_window
               \<lparr>mappedBuffers := [3 \<mapsto> (MapFailed, 4096), 4 \<mapsto> (MapFailed, 4096)]\<rparr>,
          [EvConfigure vga, EvSetFormat vga, EvAllocate 0,
           EvCreateRequest 0, EvAddBuffer 0 0 (single_plane 3 0 0), EvMmap 3 4096 MapFailed,
           EvCreateRequest 1, EvAddBuffer 1 0 (single_plane 4 0 0), EvMmap 4 4096 MapFailed,
           EvCreateRequest 2, EvAddBuffer 2 0 (single_plane 3 0 0), EvMmap 3 4096 MapFailed,
           EvCameraStart, EvQueueRequest 0, EvQueueRequest 1, EvQueueRequest 2]) \<and>
   isCapturing (capturing_window
               \<lparr>mappedBuffers := [3 \<mapsto> (MapFailed, 4096), 4 \<mapsto> (MapFailed, 4096)]\<rparr>)"
  by (simp add: startCapture_def start_session_def unwind_def munmap_all_def
      mmap_fail_device_def good_device_def fresh_window_def capturing_window_def Let_def
      single_plane_def fun_upd_twist)

text \<open>
  Claim C4. After a successful \<^verbatim>\<open>startCapture\<close> (it returns 0) the number of requests
  queued to the camera is the number of buffers allocated for the stream, every allocated
  buffer has a first plane, and every first-plane descriptor is a key of the table; the
  table being a map, each has exactly one entry. The call adds no other key: the keys
  afterwards are the keys before the call and these descriptors, so a start from an empty
  table leaves exactly one entry per distinct descriptor.
\<close>

theorem successful_start_counts:
  assumes "startCapture dev w = Inr (0, w', evs)"
  shows "length (queued evs) = length (alloc_buffers dev) \<and>
         (\<forall>b \<in> set (alloc_buffers dev). planes b \<noteq> []) \<and>
         dom (mappedBuffers w') = dom (mappedBuffers w) \<union> first_fd ` set (alloc_buffers dev)"
proof -
  from assms obtain w1 ev1 ev0 where
    s: "start_session dev w1 = Inr (0, w', ev1)" and
    w1: "mappedBuffers w1 = mappedBuffers w" and evs: "evs = ev0 @ ev1" and ev0: "queued ev0 = []"
    by (auto simp: startCapture_def Let_def EINVAL_def split: prod.splits if_splits sum.splits)
  from start_session_ok [OF s] show ?thesis
    by (simp add: w1 evs ev0 queued_append)
qed

theorem successful_start_counts_witness:
  "startCapture good_device fresh_window =
     Inr (0, capturing_window,
          [EvConfigure vga, EvSetFormat vga, EvAllocate 0,
           EvCreateRequest 0, EvAddBuffer 0 0 (single_plane 3 0 0), EvMmap 3 4096 (Addr 65536),
           EvCreateRequest 1, EvAddBuffer 1 0 (single_plane 4 0 0), EvMmap 4 4096 (Addr 131072),
           EvCreateRequest 2, EvAddBuffer 2 0 (single_plane 3 0 0), EvMmap 3 4096 (Addr 196608),
           EvCameraStart, EvQueueRequest 0, EvQueueRequest 1, EvQueueRequest 2]) \<and>
   length (alloc_buffers good_device) = 3 \<and>
   first_fd ` set (alloc_buffers good_device) = {3, 4} \<and>
   dom (mappedBuffers capturing_window) = {3, 4}"
  using successful_start_counts [of good_device fresh_window capturing_window]
  by (simp add: startCapture_def start_session_def unwind_def munmap_all_def
      good_device_def fresh_window_def capturing_window_def Let_def
      single_plane_def fun_upd_twist first_fd_def insert_commute)

section \<open>Stopping\<close>

text \<open>
  Claim C5. Calling \<^verbatim>\<open>stopCapture\<close> twice in a row leaves the window that one call
  leaves: whatever the first call did, the second changes nothing and calls nothing (no
  second \<^verbatim>\<open>munmap\<close>, no fault: the function has no undefined step), and on a window
  that is not capturing \<^verbatim>\<open>stopCapture\<close> performs no action at all.
\<close>

theorem stop_twice_same_as_once:
  "stopCapture dev' (fst (stopCapture dev w)) = (fst (stopCapture dev w), []) \<and>
   (\<not> isCapturing w \<longrightarrow> stopCapture dev w = (w, []))"
  by (simp add: stopCapture_def)

theorem stop_twice_same_as_once_witness:
  "\<not> isCapturing fresh_window \<and> stopCapture good_device fresh_window = (fresh_window, []) \<and>
   isCapturing capturing_window \<and>
   stopCapture good_device capturing_window =
     (fresh_window\<lparr>allocator := AllocDeleted\<rparr>,
      [EvCameraStop, EvMunmap (Addr 196608) 4096, EvMunmap (Addr 131072) 4096,
       EvDeleteAllocator]) \<and>
   stopCapture good_device (fst (stopCapture good_device capturing_window)) =
     (fresh_window\<lparr>allocator := AllocDeleted\<rparr>, [])"
  using stop_twice_same_as_once [of good_device good_device fresh_window]
    stop_twice_same_as_once [of good_device good_device capturing_window]
  by (simp add: stopCapture_def fresh_window_def capturing_window_def good_device_def
      munmap_all_def)

section \<open>Completions\<close>

text \<open>
  Claim C6. A completion delivered with cancelled status is dropped: the handler returns
  the window as it was (the frame counter with it) and makes no call, so nothing reaches
  the viewfinder and no request is created or queued.
\<close>

theorem cancelled_completion_dropped:
  "status req = RequestCancelled \<Longrightarrow> requestComplete new_request w req = Inr (w, [])"
  by (simp add: requestComplete_def)

theorem cancelled_completion_dropped_witness:
  "status (cancelled (single_plane 3 3 1000)) = RequestCancelled \<and>
   requestComplete (Some 7) capturing_window (cancelled (single_plane 3 3 1000)) =
     Inr (capturing_window, [])"
  using cancelled_completion_dropped
    [of "cancelled (single_plane 3 3 1000)" "Some 7" capturing_window]
  by (simp add: cancelled_def)




text \<open>
  Claim C8, amended. \<^verbatim>\<open>lastBufferTime_\<close> equal to 0 stands for no previous frame. For
  two consecutive completions that are not cancelled, with timestamps \<open>0 < T1 < T2\<close>, the
  rate the handler computes for the second is \<open>10^9 / (T2 - T1)\<close>; for the first
  completion after a successful \<^verbatim>\<open>startCapture\<close> the rate is 0. The rate is the fps
  figure of the per-frame line, as a real number.
\<close>

theorem rate_between_completions:
  "(requestComplete nr1 w r1 = Inr (w1, evs1) \<and> requestComplete nr2 w1 r2 = Inr (w2, evs2) \<and>
    status r1 \<noteq> RequestCancelled \<and> status r2 \<noteq> RequestCancelled \<and>
    0 < completed_timestamp r1 \<and> completed_timestamp r1 < completed_timestamp r2 \<longrightarrow>
      logged_fps evs2 =
        [1000000000 / real (unat (completed_timestamp r2) - unat (completed_timestamp r1))]) \<and>
   (startCapture dev w0 = Inr (0, w, evs0) \<and> requestComplete nr w r = Inr (w', evs) \<and>
    status r \<noteq> RequestCancelled \<longrightarrow> logged_fps evs = [0])"
proof (intro conjI impI)
  assume a: "requestComplete nr1 w r1 = Inr (w1, evs1) \<and>
    requestComplete nr2 w1 r2 = Inr (w2, evs2) \<and>
    status r1 \<noteq> RequestCancelled \<and> status r2 \<noteq> RequestCancelled \<and>
    0 < completed_timestamp r1 \<and> completed_timestamp r1 < completed_timestamp r2"
  then have "lastBufferTime w1 = completed_timestamp r1"
    using requestComplete_rate [of nr1 w r1 w1 evs1] by simp
  moreover from a
  have "logged_fps evs2 = [frame_rate (completed_timestamp r2) (lastBufferTime w1)]"
    using requestComplete_rate [of nr2 w1 r2 w2 evs2] by simp
  ultimately show "logged_fps evs2 =
        [1000000000 / real (unat (completed_timestamp r2) - unat (completed_timestamp r1))]"
    using a frame_rate_positive [of "completed_timestamp r1" "completed_timestamp r2"] by simp
next
  assume a: "startCapture dev w0 = Inr (0, w, evs0) \<and>
    requestComplete nr w r = Inr (w', evs) \<and> status r \<noteq> RequestCancelled"
  then have "lastBufferTime w = 0" using startCapture_resets_time by blast
  moreover from a
  have "logged_fps evs = [frame_rate (completed_timestamp r) (lastBufferTime w)]"
    using requestComplete_rate [of nr w r w' evs] by simp
  ultimately show "logged_fps evs = [0]"
    by (simp add: frame_rate_def)
qed

theorem rate_between_completions_witness:
  "startCapture good_device fresh_window =
     Inr (0, capturing_window,
          [EvConfigure vga, EvSetFormat vga, EvAllocate 0,
           EvCreateRequest 0, EvAddBuffer 0 0 (single_plane 3 0 0), EvMmap 3 4096 (Addr 65536),
           EvCreateRequest 1, EvAddBuffer 1 0 (single_plane 4 0 0), EvMmap 4 4096 (Addr 131072),
           EvCreateRequest 2, EvAddBuffer 2 0 (single_plane 3 0 0), EvMmap 3 4096 (Addr 196608),
           EvCameraStart, EvQueueRequest 0, EvQueueRequest 1, EvQueueRequest 2]) \<and>
   requestComplete (Some 7) capturing_window (completed (single_plane 3 3 1000)) =
     Inr (capturing_window\<lparr>framesCaptured := 1, lastBufferTime := 1000\<rparr>,
          [EvFrameLog 0 3 1000 0, EvDisplay (Addr 196608) 3, EvCreateRequest 7,
           EvAddBuffer 7 0 (single_plane 3 3 1000), EvQueueRequest 7]) \<and>
   requestComplete (Some 8) (capturing_window\<lparr>framesCaptured := 1, lastBufferTime := 1000\<rparr>)
       (completed (single_plane 4 3 2001000)) =
     Inr (capturing_window\<lparr>framesCaptured := 2, lastBufferTime := 2001000\<rparr>,
          [EvFrameLog 0 3 2001000 500, EvDisplay (Addr 131072) 3, EvCreateRequest 8,
           EvAddBuffer 8 0 (single_plane 4 3 2001000), EvQueueRequest 8]) \<and>
   status (completed (single_plane 3 3 1000)) \<noteq> RequestCancelled \<and>
   status (completed (single_plane 4 3 2001000)) \<noteq> RequestCancelled \<and>
   0 < completed_timestamp (completed (single_plane 3 3 1000)) \<and>
   completed_timestamp (completed (single_plane 3 3 1000))
     < completed_timestamp (completed (single_plane 4 3 2001000)) \<and>
   logged_fps [EvFrameLog 0 3 2001000 500, EvDisplay (Addr 131072) 3, EvCreateRequest 8,
           EvAddBuffer 8 0 (single_plane 4 3 2001000), EvQueueRequest 8] = [500] \<and>
   logged_fps [EvFrameLog 0 3 1000 0, EvDisplay (Addr 196608) 3, EvCreateRequest 7,
           EvAddBuffer 7 0 (single_plane 3 3 1000), EvQueueRequest 7] = [0]"
  using rate_between_completions
    [where ?nr1.0 = "Some 7" and w = capturing_window
       and ?r1.0 = "completed (single_plane 3 3 1000)"
       and ?w1.0 = "capturing_window\<lparr>framesCaptured := 1, lastBufferTime := 1000\<rparr>"
       and ?evs1.0 = "[EvFrameLog 0 3 1000 0, EvDisplay (Addr 196608) 3, EvCreateRequest 7,
           EvAddBuffer 7 0 (single_plane 3 3 1000), EvQueueRequest 7]"
       and ?nr2.0 = "Some 8" and ?r2.0 = "completed (single_plane 4 3 2001000)"
       and ?w2.0 = "capturing_window\<lparr>framesCaptured := 2, lastBufferTime := 2001000\<rparr>"
       and ?evs2.0 = "[EvFrameLog 0 3 2001000 500, EvDisplay (Addr 131072) 3, EvCreateRequest 8,
           EvAddBuffer 8 0 (single_plane 4 3 2001000), EvQueueRequest 8]"
       and dev = good_device and ?w0.0 = fresh_window
       and nr = "Some 7" and r = "completed (single_plane 3 3 1000)"
       and w' = "capturing_window\<lparr>framesCaptured := 1, lastBufferTime := 1000\<rparr>"
       and evs = "[EvFrameLog 0 3 1000 0, EvDisplay (Addr 196608) 3, EvCreateRequest 7,
           EvAddBuffer 7 0 (single_plane 3 3 1000), EvQueueRequest 7]"]
  by (simp add: startCapture_def start_session_def unwind_def munmap_all_def
      good_device_def fresh_window_def Let_def fun_upd_twist
      requestComplete_def display_def table_index_def resubmit_def completed_def
      single_plane_def capturing_window_def frame_rate_def completed_timestamp_def
      completed_buffer_def)

text \<open>
  The claim as first stated takes every pair \<open>T1 < T2\<close>. With \<open>T1 = 0\<close> the handler
  takes the frame stamped \<open>T2 = 10^9\<close> for a first frame: it logs the rate 0 where
  \<open>10^9 / (T2 - T1)\<close> is 1.
\<close>

theorem zero_timestamp_counterexample:
  "requestComplete (Some 7) capturing_window (completed (single_plane 3 3 0)) =
     Inr (capturing_window\<lparr>framesCaptured := 1\<rparr>,
          [EvFrameLog 0 3 0 0, EvDisplay (Addr 196608) 3, EvCreateRequest 7,
           EvAddBuffer 7 0 (single_plane 3 3 0), EvQueueRequest 7]) \<and>
   requestComplete (Some 8) (capturing_window\<lparr>framesCaptured := 1\<rparr>)
       (completed (single_plane 4 3 1000000000)) =
     Inr (capturing_window\<lparr>framesCaptured := 2, lastBufferTime := 1000000000\<rparr>,
          [EvFrameLog 0 3 1000000000 0, EvDisplay (Addr 131072) 3, EvCreateRequest 8,
           EvAddBuffer 8 0 (single_plane 4 3 1000000000), EvQueueRequest 8]) \<and>
   completed_timestamp (completed (single_plane 3 3 0)) = 0 \<and>
   completed_timestamp (completed (single_plane 4 3 1000000000)) = 1000000000 \<and>
   (0 :: 64 word) < 1000000000 \<and>
   (1000000000 :: real) / (1000000000 - 0) \<noteq> 0"
  by (simp add: requestComplete_def display_def table_index_def resubmit_def completed_def
      single_plane_def capturing_window_def frame_rate_def Let_def completed_timestamp_def
      completed_buffer_def)

text \<open>
  Claim C9, amended. \<^verbatim>\<open>requestComplete\<close> leaves the table as it is whenever the
  lookup in \<^verbatim>\<open>display\<close> is not reached (the request is cancelled, or its buffer does not
  have exactly one plane) or finds its key: the first-plane descriptor of the completed
  buffer is a key of the table, as it is for every buffer of a successful start. The table
  is otherwise written by \<^verbatim>\<open>startCapture\<close> (the loop and the label \<^verbatim>\<open>error:\<close>) and
  cleared by \<^verbatim>\<open>stopCapture\<close>.
\<close>

theorem completion_keeps_table:
  assumes "requestComplete new_request w req = Inr (w', evs)"
    and "\<forall>s b rest. status req \<noteq> RequestCancelled \<and> buffers req = (s, b) # rest \<and>
           length (planes b) = 1 \<longrightarrow> first_fd b \<in> dom (mappedBuffers w)"
  shows "mappedBuffers w' = mappedBuffers w"
  using assms
  by (auto simp: requestComplete_def display_def table_index_def Let_def first_fd_def
      split: if_splits list.splits sum.splits option.splits)

theorem completion_keeps_table_witness:
  "requestComplete (Some 7) capturing_window (completed (single_plane 3 3 1000)) =
     Inr (capturing_window\<lparr>framesCaptured := 1, lastBufferTime := 1000\<rparr>,
          [EvFrameLog 0 3 1000 0, EvDisplay (Addr 196608) 3, EvCreateRequest 7,
           EvAddBuffer 7 0 (single_plane 3 3 1000), EvQueueRequest 7]) \<and>
   first_fd (single_plane 3 3 1000) \<in> dom (mappedBuffers capturing_window) \<and>
   mappedBuffers (capturing_window\<lparr>framesCaptured := 1, lastBufferTime := 1000\<rparr>) =
     mappedBuffers capturing_window"
  using completion_keeps_table
      [of "Some 7" capturing_window "completed (single_plane 3 3 1000)"
          "capturing_window\<lparr>framesCaptured := 1, lastBufferTime := 1000\<rparr>"]
  by (simp add: requestComplete_def display_def table_index_def resubmit_def completed_def
      single_plane_def capturing_window_def frame_rate_def Let_def first_fd_def)

text \<open>
  The claim as first stated, for every execution of the handler, fails: the lookup is
  \<^verbatim>\<open>mappedBuffers_[fd]\<close>, which inserts. For a single-plane buffer whose descriptor 5
  is not in the table, the handler adds the entry \<^verbatim>\<open>(nullptr, 0)\<close> under 5 and hands the
  null pointer to the viewfinder.
\<close>

theorem display_lookup_inserts_counterexample:
  "mappedBuffers capturing_window 5 = None \<and>
   requestComplete (Some 7) capturing_window (completed (single_plane 5 3 1000)) =
     Inr (capturing_window
            \<lparr>framesCaptured := 1, lastBufferTime := 1000,
             mappedBuffers := (mappedBuffers capturing_window)(5 \<mapsto> (NullPtr, 0))\<rparr>,
          [EvFrameLog 0 3 1000 0, EvDisplay NullPtr 3, EvCreateRequest 7,
           EvAddBuffer 7 0 (single_plane 5 3 1000), EvQueueRequest 7]) \<and>
   mappedBuffers
     (capturing_window
            \<lparr>framesCaptured := 1, lastBufferTime := 1000,
             mappedBuffers := (mappedBuffers capturing_window)(5 \<mapsto> (NullPtr, 0))\<rparr>) 5
     = Some (NullPtr, 0)"
  by (simp add: requestComplete_def display_def table_index_def resubmit_def completed_def
      single_plane_def capturing_window_def frame_rate_def Let_def)

text \<open>
  Claim C10, amended. The handler reads \<^verbatim>\<open>metadata.planes[0].bytesused\<close> for its
  per-frame line before \<^verbatim>\<open>display\<close> checks the number of planes. For a request that
  carries a buffer whose \<^verbatim>\<open>metadata.planes\<close> is not empty, the handler runs to its end
  without an out-of-bounds read, and so does \<^verbatim>\<open>display\<close> on that buffer
  (\<^verbatim>\<open>planes().front()\<close> is behind the size check, \<^verbatim>\<open>metadata().planes[0]\<close> reads the
  same vector); when the request is not cancelled the per-frame line holds the bytes used
  of the first plane, whatever the number of planes. The read is not guarded: with an
  empty \<^verbatim>\<open>metadata.planes\<close> the handler is out of bounds before any plane count is
  looked at.
\<close>

theorem metadata_plane_reads_in_bounds:
  assumes "buffers req = (s, b) # rest"
  shows "(mplanes (metadata b) \<noteq> [] \<longrightarrow>
            (\<exists>w' evs. requestComplete new_request w req = Inr (w', evs)) \<and>
            (\<exists>ret w' evd. display w b = Inr (ret, w', evd))) \<and>
         (mplanes (metadata b) \<noteq> [] \<and> status req \<noteq> RequestCancelled \<longrightarrow>
            (\<exists>w' fps evs. requestComplete new_request w req =
               Inr (w', EvFrameLog (sequence (metadata b)) (hd (mplanes (metadata b)))
                          (timestamp (metadata b)) fps # evs))) \<and>
         (mplanes (metadata b) = [] \<and> status req \<noteq> RequestCancelled \<longrightarrow>
            requestComplete new_request w req = Inl OutOfBounds)"
  using assms
  by (auto simp: requestComplete_def display_def table_index_def Let_def
      split: list.splits option.splits)

theorem metadata_plane_reads_in_bounds_witness:
  "buffers (completed (single_plane 3 3 1000)) = (0, single_plane 3 3 1000) # [] \<and>
   mplanes (metadata (single_plane 3 3 1000)) \<noteq> [] \<and>
   status (completed (single_plane 3 3 1000)) \<noteq> RequestCancelled \<and>
   requestComplete (Some 7) capturing_window (completed (single_plane 3 3 1000)) =
     Inr (capturing_window\<lparr>framesCaptured := 1, lastBufferTime := 1000\<rparr>,
          [EvFrameLog 0 3 1000 0, EvDisplay (Addr 196608) 3, EvCreateRequest 7,
           EvAddBuffer 7 0 (single_plane 3 3 1000), EvQueueRequest 7]) \<and>
   display capturing_window (single_plane 3 3 1000) =
     Inr (0, capturing_window, [EvDisplay (Addr 196608) 3]) \<and>
   buffers (completed two_plane) = (0, two_plane) # [] \<and>
   mplanes (metadata two_plane) \<noteq> [] \<and>
   status (completed two_plane) \<noteq> RequestCancelled \<and>
   requestComplete (Some 7) capturing_window (completed two_plane) =
     Inr (capturing_window\<lparr>framesCaptured := 1, lastBufferTime := 5000\<rparr>,
          [EvFrameLog 0 4096 5000 0, EvCreateRequest 7, EvAddBuffer 7 0 two_plane,
           EvQueueRequest 7]) \<and>
   buffers (completed no_metadata) = (0, no_metadata) # [] \<and>
   mplanes (metadata no_metadata) = [] \<and>
   status (completed no_metadata) \<noteq> RequestCancelled \<and>
   requestComplete None capturing_window (completed no_metadata) = Inl OutOfBounds"
  using metadata_plane_reads_in_bounds
      [of "completed (single_plane 3 3 1000)" 0 "single_plane 3 3 1000" "[]" "Some 7"
          capturing_window]
    metadata_plane_reads_in_bounds
      [of "completed two_plane" 0 two_plane "[]" "Some 7" capturing_window]
    metadata_plane_reads_in_bounds
      [of "completed no_metadata" 0 no_metadata "[]" None capturing_window]
  by (simp add: requestComplete_def display_def table_index_def resubmit_def completed_def
      two_plane_def no_metadata_def single_plane_def capturing_window_def frame_rate_def
      Let_def)

text \<open>
  The claim as first stated takes a plane in \<^verbatim>\<open>planes()\<close> for its precondition. A
  buffer with two planes and an empty \<^verbatim>\<open>metadata.planes\<close> meets it, and the handler is
  out of bounds at its per-frame line.
\<close>

theorem planes_without_metadata_counterexample:
  "buffers (completed no_metadata) = [(0, no_metadata)] \<and>
   status (completed no_metadata) \<noteq> RequestCancelled \<and>
   length (planes no_metadata) = 2 \<and>
   mplanes (metadata no_metadata) = [] \<and>
   requestComplete (Some 7) capturing_window (completed no_metadata) = Inl OutOfBounds"
  by (simp add: requestComplete_def completed_def two_plane_def no_metadata_def Let_def)

end
